theory Spec2Isabelle
  imports Main "HOL-Library.Multiset"
begin

section \<open>Data model\<close>

text \<open>
  The table \<open>sync_queue\<close> of supabase-schema.sql and the interface
  \<open>SyncQueueItem\<close> of the sync service. Timestamps are points in time (ordered, as
  TIMESTAMPTZ is); \<open>record_data\<close> is a JSON object, kept as the list of its fields with
  every value as its JSON text.
\<close>

datatype operation = Insert | Update | Delete

datatype status = Pending | Synced | Failed

type_synonym payload = "(string \<times> string) list"

record SyncQueueItem =
  item_id :: string
  user_id :: string
  operation :: operation
  table_name :: string
  record_data :: payload
  status :: status
  error_message :: "string option"
  attempts :: int
  created_at :: nat
  synced_at :: "nat option"

text \<open>An item of the image archive: \<open>nasaItem.data\<close> and \<open>nasaItem.links\<close>.\<close>

record NASAImageItem =
  nasa_data :: "payload list"
  links :: "payload list"

text \<open>
  A request of the backend client either rejects (the awaited call throws) or resolves to a
  response whose \<open>error\<close> field is empty or holds the backend's error; this is the
  shape every call site of the repository destructures
  (\<^verbatim>\<open>const { data, error } = await supabase.from(...)\<close>). \<open>Responded e s\<close>
  carries that error field and the remote tables after the request.
\<close>

datatype 's response = Rejected string | Responded "string option" 's

text \<open>
  What the program reads from its surroundings during one operation: the signed-in user
  (\<open>supabase.auth.getUser\<close>), the clock, the identifier \<open>gen_random_uuid()\<close>
  gives the next row of \<open>sync_queue\<close>, the error with which the backend answers
  requests on \<open>sync_queue\<close> (none when it serves them), the connectivity that
  \<open>NetInfo.fetch\<close> reports, and the requests on the other remote tables, whose
  contents \<open>'s\<close> are left open.
\<close>

record 's backend =
  auth_user :: "string option"
  date_now :: nat
  new_uuid :: string
  queue_error :: "string option"
  isConnected :: bool
  remote_insert :: "string \<Rightarrow> payload \<Rightarrow> 's \<Rightarrow> 's response"
  remote_update :: "string \<Rightarrow> payload \<Rightarrow> string option \<Rightarrow> 's \<Rightarrow> 's response"
  remote_delete :: "string \<Rightarrow> string option \<Rightarrow> 's \<Rightarrow> 's response"
  insert_single :: "string \<Rightarrow> payload \<Rightarrow> 's \<Rightarrow> (string + payload) \<times> 's"
  images_select :: "string option \<Rightarrow> 's \<Rightarrow> string option"
  images_insert :: "NASAImageItem \<Rightarrow> 's \<Rightarrow> (string + string) \<times> 's"

text \<open>
  The state the operations act on: the rows of \<open>sync_queue\<close>, the other remote
  tables, the static flag \<open>SyncService.isOnline\<close> and the key
  \<open>last_sync_time\<close> of the device storage.
\<close>

record 's world =
  sync_queue :: "SyncQueueItem list"
  store :: 's
  isOnline :: bool
  last_sync_time :: "nat option"

section \<open>Requests on the table sync\_queue\<close>

text \<open>
  Row-level security of supabase-schema.sql: every policy of \<open>sync_queue\<close> is
  \<open>auth.uid() = user_id\<close>.
\<close>

definition rls :: "string option \<Rightarrow> SyncQueueItem \<Rightarrow> bool" where
  "rls u r = (Some (user_id r) = u)"

text \<open>\<^verbatim>\<open>.select('*').eq('user_id', u).eq('status', 'pending').order('created_at', { ascending: true })\<close>\<close>

definition select_pending :: "string \<Rightarrow> SyncQueueItem list \<Rightarrow> SyncQueueItem list" where
  "select_pending u q = sort_key created_at (filter (\<lambda>r. user_id r = u \<and> status r = Pending) q)"

text \<open>
  The requests on \<open>sync_queue\<close> resolve to a response: they give the error field of the
  response and the rows after the request, and a request that the backend answers with an
  error changes nothing.

  \<^verbatim>\<open>.update(f).eq('id', i)\<close>:
\<close>

definition queue_update ::
  "'s backend \<Rightarrow> string \<Rightarrow> (SyncQueueItem \<Rightarrow> SyncQueueItem) \<Rightarrow> SyncQueueItem list
     \<Rightarrow> string option \<times> SyncQueueItem list" where
  "queue_update be i f q =
     (case queue_error be of
        Some e \<Rightarrow> (Some e, q)
      | None \<Rightarrow> (None, map (\<lambda>r. if item_id r = i \<and> rls (auth_user be) r then f r else r) q))"

text \<open>
  \<^verbatim>\<open>.insert({ user_id, operation, table_name, record_data })\<close>: the other columns take
  their defaults, and \<open>id\<close> is the primary key.
\<close>

definition new_row :: "'s backend \<Rightarrow> string \<Rightarrow> operation \<Rightarrow> string \<Rightarrow> payload \<Rightarrow> SyncQueueItem" where
  "new_row be u opn t d =
     \<lparr> item_id = new_uuid be, user_id = u, operation = opn, table_name = t, record_data = d,
       status = Pending, error_message = None, attempts = 0, created_at = date_now be,
       synced_at = None \<rparr>"

definition queue_insert ::
  "'s backend \<Rightarrow> SyncQueueItem \<Rightarrow> SyncQueueItem list \<Rightarrow> string option \<times> SyncQueueItem list" where
  "queue_insert be r q =
     (case queue_error be of
        Some e \<Rightarrow> (Some e, q)
      | None \<Rightarrow>
          if \<not> rls (auth_user be) r then (Some ''new row violates row-level security policy'', q)
          else if item_id r \<in> set (map item_id q)
          then (Some ''duplicate key value violates unique constraint'', q)
          else (None, q @ [r]))"

text \<open>\<^verbatim>\<open>.delete().eq('user_id', u).eq('status', 'synced')\<close>\<close>

definition queue_delete_synced ::
  "'s backend \<Rightarrow> string \<Rightarrow> SyncQueueItem list \<Rightarrow> string option \<times> SyncQueueItem list" where
  "queue_delete_synced be u q =
     (case queue_error be of
        Some e \<Rightarrow> (Some e, q)
      | None \<Rightarrow> (None, filter (\<lambda>r. \<not> (user_id r = u \<and> status r = Synced \<and> rls (auth_user be) r)) q))"

section \<open>supabasecliente.js: the offline queue\<close>

text \<open>\<open>queueOfflineOperation\<close>: the result is the thrown message or the inserted row.\<close>

definition queueOfflineOperation ::
  "'s backend \<Rightarrow> operation \<Rightarrow> string \<Rightarrow> payload \<Rightarrow> 's world
     \<Rightarrow> (string + SyncQueueItem) \<times> 's world" where
  "queueOfflineOperation be opn tableName recordData w =
     (case auth_user be of
        None \<Rightarrow> (Inl ''User not authenticated'', w)
      | Some u \<Rightarrow>
          (let r = new_row be u opn tableName recordData in
           case queue_insert be r (sync_queue w) of
             (Some e, q) \<Rightarrow> (Inl e, w\<lparr>sync_queue := q\<rparr>)
           | (None, q) \<Rightarrow> (Inr r, w\<lparr>sync_queue := q\<rparr>)))"

text \<open>\<open>item.record_data.id\<close>\<close>

definition payload_id :: "payload \<Rightarrow> string option" where
  "payload_id d = map_of d ''id''"

text \<open>
  The if / else-if chain that executes the queued operation. The table an item names is one
  of the remote tables of \<open>store\<close>; the rows of \<open>sync_queue\<close> are held apart from
  them, so that an item naming \<open>sync_queue\<close> itself is not covered. The clock is read as
  one value during an operation.
\<close>

definition replay :: "'s backend \<Rightarrow> SyncQueueItem \<Rightarrow> 's \<Rightarrow> 's response" where
  "replay be item s =
     (case operation item of
        Insert \<Rightarrow> remote_insert be (table_name item) (record_data item) s
      | Update \<Rightarrow> remote_update be (table_name item) (record_data item) (payload_id (record_data item)) s
      | Delete \<Rightarrow> remote_delete be (table_name item) (payload_id (record_data item)) s)"

definition mark_synced :: "'s backend \<Rightarrow> SyncQueueItem \<Rightarrow> SyncQueueItem" where
  "mark_synced be r = r\<lparr>status := Synced, synced_at := Some (date_now be)\<rparr>"

definition mark_failed :: "string \<Rightarrow> SyncQueueItem \<Rightarrow> SyncQueueItem \<Rightarrow> SyncQueueItem" where
  "mark_failed msg item r =
     r\<lparr>status := Failed, error_message := Some msg, attempts := attempts item + 1\<rparr>"

text \<open>
  The body of the loop: the try block replays the item and marks it synced, the catch block
  marks it failed. The responses are not looked at, as in the source; only a rejected call
  reaches the catch block.
\<close>

definition process_item ::
  "'s backend \<Rightarrow> SyncQueueItem \<Rightarrow> 's world \<times> nat \<times> nat \<Rightarrow> 's world \<times> nat \<times> nat" where
  "process_item be item acc =
     (case acc of (w, processed, failed) \<Rightarrow>
        (case replay be item (store w) of
           Responded e s' \<Rightarrow>
             (w\<lparr>store := s',
                sync_queue := snd (queue_update be (item_id item) (mark_synced be) (sync_queue w))\<rparr>,
              processed + 1, failed)
         | Rejected msg \<Rightarrow>
             (w\<lparr>sync_queue := snd (queue_update be (item_id item) (mark_failed msg item) (sync_queue w))\<rparr>,
              processed, failed + 1)))"

fun drain_loop ::
  "'s backend \<Rightarrow> SyncQueueItem list \<Rightarrow> 's world \<times> nat \<times> nat \<Rightarrow> 's world \<times> nat \<times> nat" where
  "drain_loop be [] acc = acc"
| "drain_loop be (item # pending) acc = drain_loop be pending (process_item be item acc)"

definition processSyncQueue ::
  "'s backend \<Rightarrow> 's world \<Rightarrow> (string + nat \<times> nat) \<times> 's world" where
  "processSyncQueue be w =
     (case auth_user be of
        None \<Rightarrow> (Inr (0, 0), w)
      | Some u \<Rightarrow>
          (case queue_error be of
             Some e \<Rightarrow> (Inl e, w)
           | None \<Rightarrow>
               (case drain_loop be (select_pending u (sync_queue w)) (w, 0, 0) of
                  (w', processed, failed) \<Rightarrow> (Inr (processed, failed), w'))))"

section \<open>The sync service\<close>

definition syncNow :: "'s backend \<Rightarrow> 's world \<Rightarrow> (nat \<times> nat) \<times> 's world" where
  "syncNow be w =
     (if \<not> isOnline w then ((0, 0), w)
      else (case processSyncQueue be w of
              (Inr result, w') \<Rightarrow> (result, w'\<lparr>last_sync_time := Some (date_now be)\<rparr>)
            | (Inl e, w') \<Rightarrow> ((0, 0), w')))"

definition reset_item :: "SyncQueueItem \<Rightarrow> SyncQueueItem" where
  "reset_item r = r\<lparr>status := Pending, attempts := 0, error_message := None\<rparr>"

definition retryFailedItem :: "'s backend \<Rightarrow> string \<Rightarrow> 's world \<Rightarrow> (string + unit) \<times> 's world" where
  "retryFailedItem be itemId w =
     (case queue_update be itemId reset_item (sync_queue w) of
        (Some e, q) \<Rightarrow> (Inl e, w\<lparr>sync_queue := q\<rparr>)
      | (None, q) \<Rightarrow> (Inr (), snd (syncNow be (w\<lparr>sync_queue := q\<rparr>))))"

definition clearSyncedItems :: "'s backend \<Rightarrow> 's world \<Rightarrow> (string + unit) \<times> 's world" where
  "clearSyncedItems be w =
     (case auth_user be of
        None \<Rightarrow> (Inr (), w)
      | Some u \<Rightarrow>
          (case queue_delete_synced be u (sync_queue w) of
             (Some e, q) \<Rightarrow> (Inl e, w\<lparr>sync_queue := q\<rparr>)
           | (None, q) \<Rightarrow> (Inr (), w\<lparr>sync_queue := q\<rparr>)))"

section \<open>The annotation service\<close>

text \<open>
  \<open>ImageService.getOrCreateImage\<close>, as far as \<open>createAnnotation\<close> uses it: the
  result is the thrown message or the \<open>id\<close> of the image row. The error of the select
  is not looked at; the row to insert is computed from the NASA item, which
  \<open>images_insert\<close> is given.
\<close>

definition getOrCreateImage ::
  "'s backend \<Rightarrow> NASAImageItem \<Rightarrow> 's \<Rightarrow> (string + string) \<times> 's" where
  "getOrCreateImage be nasaItem s =
     (case nasa_data nasaItem of
        [] \<Rightarrow> (Inl ''TypeError: Cannot read properties of undefined'', s)
      | d # _ \<Rightarrow>
          (case images_select be (map_of d ''nasa_id'') s of
             Some existing \<Rightarrow> (Inr existing, s)
           | None \<Rightarrow> images_insert be nasaItem s))"

datatype annotation_type = Text | Rectangle | Circle | Polygon | Freehand | Point

fun annotation_type_name :: "annotation_type \<Rightarrow> string" where
  "annotation_type_name Text = ''text''"
| "annotation_type_name Rectangle = ''rectangle''"
| "annotation_type_name Circle = ''circle''"
| "annotation_type_name Polygon = ''polygon''"
| "annotation_type_name Freehand = ''freehand''"
| "annotation_type_name Point = ''point''"

record annotationData =
  bbox :: "string option"
  label :: "string option"
  annotation_type :: annotation_type
  text_field :: "string option"
  properties :: "string option"
  color :: "string option"

text \<open>A field whose value is undefined is not part of the object that is sent.\<close>

fun optional_field :: "string \<Rightarrow> string option \<Rightarrow> payload" where
  "optional_field k None = []"
| "optional_field k (Some v) = [(k, v)]"

text \<open>\<^verbatim>\<open>x || d\<close> on an optional string: undefined and the empty string give \<open>d\<close>.\<close>

fun or_default :: "string option \<Rightarrow> string \<Rightarrow> string" where
  "or_default None d = d"
| "or_default (Some v) d = (if v = [] then d else v)"

text \<open>
  \<^verbatim>\<open>x || d\<close> on an optional value of any type, kept as the text that
  \<open>JSON.stringify\<close> gives it: undefined and every falsy value (the number zero, false,
  null, not-a-number, which is written null, and the empty string, with or without its
  quotes) give \<open>d\<close>.
\<close>

definition falsy_text :: "string \<Rightarrow> bool" where
  "falsy_text v = (v \<in> set [[], ''0'', ''false'', ''null'', [CHR 0x22, CHR 0x22]])"

fun or_default_any :: "string option \<Rightarrow> string \<Rightarrow> string" where
  "or_default_any None d = d"
| "or_default_any (Some v) d = (if falsy_text v then d else v)"

definition insertData :: "string \<Rightarrow> string \<Rightarrow> annotationData \<Rightarrow> payload" where
  "insertData img u a =
     [(''image_id'', img), (''user_id'', u)]
     @ optional_field ''bbox'' (bbox a)
     @ optional_field ''label'' (label a)
     @ [(''annotation_type'', annotation_type_name (annotation_type a))]
     @ optional_field ''text'' (text_field a)
     @ [(''properties'', or_default_any (properties a) ''{}''),
        (''color'', or_default (color a) ''#FFFFFF''),
        (''source'', ''user'')]"

text \<open>
  What \<open>createAnnotation\<close> returns: \<open>Optimistic n d\<close> is the object with id
  \<open>temp-n\<close>, the fields \<open>d\<close> and both timestamps \<open>n\<close>; \<open>Stored row\<close> is the row
  the backend returned.
\<close>

datatype AnnotationV2 = Optimistic nat payload | Stored payload

definition createAnnotation ::
  "'s backend \<Rightarrow> NASAImageItem \<Rightarrow> annotationData \<Rightarrow> 's world
     \<Rightarrow> (string + AnnotationV2) \<times> 's world" where
  "createAnnotation be nasaItem a w =
     (case auth_user be of
        None \<Rightarrow> (Inl ''User not authenticated'', w)
      | Some u \<Rightarrow>
          (case getOrCreateImage be nasaItem (store w) of
             (Inl e, s) \<Rightarrow> (Inl e, w\<lparr>store := s\<rparr>)
           | (Inr img, s) \<Rightarrow>
               (let d = insertData img u a in
                if \<not> isConnected be then
                  (case queueOfflineOperation be Insert ''annotations'' d (w\<lparr>store := s\<rparr>) of
                     (Inl e, w') \<Rightarrow> (Inl e, w')
                   | (Inr queued, w') \<Rightarrow> (Inr (Optimistic (date_now be) d), w'))
                else
                  (case insert_single be ''annotations'' d s of
                     (Inl e, s') \<Rightarrow> (Inl e, w\<lparr>store := s'\<rparr>)
                   | (Inr row, s') \<Rightarrow> (Inr (Stored row), w\<lparr>store := s'\<rparr>)))))"

section \<open>Derived notions used in the statements\<close>

text \<open>The remote tables after one replay: a rejected call leaves them as they were.\<close>

definition replay_store :: "'s backend \<Rightarrow> 's \<Rightarrow> SyncQueueItem \<Rightarrow> 's" where
  "replay_store be s item = (case replay be item s of Responded e s' \<Rightarrow> s' | Rejected msg \<Rightarrow> s)"

text \<open>How many of the items, replayed one after the other from \<open>s\<close>, are rejected.\<close>

fun rejected_count :: "'s backend \<Rightarrow> 's \<Rightarrow> SyncQueueItem list \<Rightarrow> nat" where
  "rejected_count be s [] = 0"
| "rejected_count be s (item # items) =
     (case replay be item s of
        Rejected msg \<Rightarrow> Suc (rejected_count be s items)
      | Responded e s' \<Rightarrow> rejected_count be s' items)"

text \<open>
  How a row \<open>r\<close> of the queue relates to the same row \<open>r'\<close> after the items have
  been through the loop for the user \<open>u\<close>: the row keeps its id and owner, it is changed
  only if it is one of the items, and it is pending afterwards only if it was pending and is
  none of the items.
\<close>

definition settled :: "string \<Rightarrow> SyncQueueItem list \<Rightarrow> SyncQueueItem \<Rightarrow> SyncQueueItem \<Rightarrow> bool" where
  "settled u items r r' =
     (item_id r' = item_id r \<and> user_id r' = user_id r \<and>
      (user_id r = u \<and> item_id r \<in> item_id ` set items \<or> r' = r) \<and>
      (status r' = Pending \<longrightarrow> status r = Pending \<and> \<not> (user_id r = u \<and> item_id r \<in> item_id ` set items)))"

text \<open>
  The marks the rows of the queue carry: attempts are never negative, and a failed row has at
  least one attempt and an error message.
\<close>

definition well_marked :: "SyncQueueItem list \<Rightarrow> bool" where
  "well_marked q =
     (\<forall>r \<in> set q. 0 \<le> attempts r \<and>
        (status r = Failed \<longrightarrow> 1 \<le> attempts r \<and> error_message r \<noteq> None))"

section \<open>A backend of tables, for concrete runs\<close>

text \<open>
  Remote tables as a list of rows, each with the name of its table. The requests have the
  meaning of the statements the query builder sends: an insert appends the row unless its
  \<open>id\<close> is taken in that table, which the response reports as an error; an update or a
  delete acts on the rows that match the filter on \<open>id\<close>, and a filter that matches no
  row is not an error.
\<close>

type_synonym tables = "(string \<times> payload) list"

definition matches :: "string \<Rightarrow> string option \<Rightarrow> string \<times> payload \<Rightarrow> bool" where
  "matches t i row = (fst row = t \<and> i \<noteq> None \<and> payload_id (snd row) = i)"

definition table_insert :: "string \<Rightarrow> payload \<Rightarrow> tables \<Rightarrow> tables response" where
  "table_insert t d s =
     (if list_ex (matches t (payload_id d)) s
      then Responded (Some ''duplicate key value violates unique constraint'') s
      else Responded None (s @ [(t, d)]))"

definition set_fields :: "payload \<Rightarrow> payload \<Rightarrow> payload" where
  "set_fields d row = d @ filter (\<lambda>kv. map_of d (fst kv) = None) row"

definition table_update :: "string \<Rightarrow> payload \<Rightarrow> string option \<Rightarrow> tables \<Rightarrow> tables response" where
  "table_update t d i s =
     Responded None (map (\<lambda>row. if matches t i row then (t, set_fields d (snd row)) else row) s)"

definition table_delete :: "string \<Rightarrow> string option \<Rightarrow> tables \<Rightarrow> tables response" where
  "table_delete t i s = Responded None (filter (\<lambda>row. \<not> matches t i row) s)"

definition table_insert_single :: "string \<Rightarrow> payload \<Rightarrow> tables \<Rightarrow> (string + payload) \<times> tables" where
  "table_insert_single t d s =
     (case table_insert t d s of
        Responded None s' \<Rightarrow> (Inr d, s')
      | Responded (Some e) s' \<Rightarrow> (Inl e, s')
      | Rejected e \<Rightarrow> (Inl e, s))"

definition table_images_select :: "string option \<Rightarrow> tables \<Rightarrow> string option" where
  "table_images_select n s =
     (case filter (\<lambda>row. fst row = ''images'' \<and> n \<noteq> None \<and> map_of (snd row) ''nasa_id'' = n) s of
        [row] \<Rightarrow> payload_id (snd row)
      | _ \<Rightarrow> None)"

definition table_images_insert :: "string \<Rightarrow> NASAImageItem \<Rightarrow> tables \<Rightarrow> (string + string) \<times> tables" where
  "table_images_insert i nasaItem s =
     (case table_insert ''images'' ((''id'', i) # concat (take 1 (nasa_data nasaItem))) s of
        Responded None s' \<Rightarrow> (Inr i, s')
      | Responded (Some e) s' \<Rightarrow> (Inl e, s')
      | Rejected e \<Rightarrow> (Inl e, s))"

text \<open>The backend of tables for a signed-in user, a time, a fresh queue id and a connectivity.\<close>

definition table_backend :: "string option \<Rightarrow> nat \<Rightarrow> string \<Rightarrow> bool \<Rightarrow> tables backend" where
  "table_backend u n i c =
     \<lparr> auth_user = u, date_now = n, new_uuid = i, queue_error = None, isConnected = c,
       remote_insert = table_insert, remote_update = table_update, remote_delete = table_delete,
       insert_single = table_insert_single, images_select = table_images_select,
       images_insert = table_images_insert (''img-'' @ i) \<rparr>"

text \<open>A backend that cannot be reached: every request is answered with a network error.\<close>

definition unreachable_backend :: "string option \<Rightarrow> nat \<Rightarrow> tables backend" where
  "unreachable_backend u n =
     \<lparr> auth_user = u, date_now = n, new_uuid = ''none'',
       queue_error = Some ''Network request failed'', isConnected = False,
       remote_insert = (\<lambda>t d s. Responded (Some ''Network request failed'') s),
       remote_update = (\<lambda>t d i s. Responded (Some ''Network request failed'') s),
       remote_delete = (\<lambda>t i s. Responded (Some ''Network request failed'') s),
       insert_single = (\<lambda>t d s. (Inl ''Network request failed'', s)),
       images_select = (\<lambda>n s. None),
       images_insert = (\<lambda>nasaItem s. (Inl ''Network request failed'', s)) \<rparr>"

definition queued ::
  "string \<Rightarrow> string \<Rightarrow> operation \<Rightarrow> string \<Rightarrow> payload \<Rightarrow> status \<Rightarrow> nat \<Rightarrow> SyncQueueItem" where
  "queued i u opn t d st c =
     \<lparr> item_id = i, user_id = u, operation = opn, table_name = t, record_data = d,
       status = st, error_message = None, attempts = 0, created_at = c, synced_at = None \<rparr>"

definition device :: "SyncQueueItem list \<Rightarrow> tables \<Rightarrow> bool \<Rightarrow> tables world" where
  "device q s online = \<lparr> sync_queue = q, store = s, isOnline = online, last_sync_time = None \<rparr>"

section \<open>The drain loop\<close>


lemma process_item_cases:
  obtains (resolved) e s' where "replay be item (store w) = Responded e s'"
      "process_item be item (w, p, f) =
         (w\<lparr>store := s', sync_queue := snd (queue_update be (item_id item) (mark_synced be) (sync_queue w))\<rparr>, p + 1, f)"
  | (rejected) msg where "replay be item (store w) = Rejected msg"
      "process_item be item (w, p, f) =
         (w\<lparr>sync_queue := snd (queue_update be (item_id item) (mark_failed msg item) (sync_queue w))\<rparr>, p, f + 1)"
  by (cases "replay be item (store w)") (auto simp: process_item_def)

lemma drain_loop_counts:
  "drain_loop be items (w, p, f) = (w', p', f') \<Longrightarrow>
     p' + f' = p + f + length items \<and> f' = f + rejected_count be (store w) items"
proof (induction items arbitrary: w p f)
  case Nil
  then show ?case by simp
next
  case (Cons item items)
  show ?case
  proof (cases rule: process_item_cases [of be item w p f])
    case (resolved e s')
    with Cons.prems Cons.IH [of "fst (process_item be item (w, p, f))" "p + 1" f]
    show ?thesis by simp
  next
    case (rejected msg)
    with Cons.prems Cons.IH [of "fst (process_item be item (w, p, f))" p "f + 1"]
    show ?thesis by simp
  qed
qed

lemma drain_loop_store:
  "store (fst (drain_loop be items (w, p, f))) = foldl (replay_store be) (store w) items"
proof (induction items arbitrary: w p f)
  case Nil
  then show ?case by simp
next
  case (Cons item items)
  show ?case
  proof (cases rule: process_item_cases [of be item w p f])
    case (resolved e s')
    with Cons.IH [of "fst (process_item be item (w, p, f))" "p + 1" f]
    show ?thesis by (simp add: replay_store_def)
  next
    case (rejected msg)
    with Cons.IH [of "fst (process_item be item (w, p, f))" p "f + 1"]
    show ?thesis by (simp add: replay_store_def)
  qed
qed

lemma process_item_settled:
  assumes "auth_user be = Some u" and "queue_error be = None"
  shows "list_all2 (settled u [item]) (sync_queue w) (sync_queue (fst (process_item be item (w, p, f))))"
proof (cases rule: process_item_cases [of be item w p f])
  case (resolved e s')
  with assms show ?thesis
    by (auto simp: queue_update_def rls_def list_all2_map2 list_all2_same settled_def mark_synced_def)
next
  case (rejected msg)
  with assms show ?thesis
    by (auto simp: queue_update_def rls_def list_all2_map2 list_all2_same settled_def mark_failed_def)
qed

lemma settled_step:
  "settled u [item] r r' \<Longrightarrow> settled u items r' r'' \<Longrightarrow> settled u (item # items) r r''"
  by (auto simp: settled_def)

lemma drain_loop_settled:
  assumes "auth_user be = Some u" and "queue_error be = None"
  shows "list_all2 (settled u items) (sync_queue w) (sync_queue (fst (drain_loop be items (w, p, f))))"
proof (induction items arbitrary: w p f)
  case Nil
  show ?case by (simp add: settled_def list_all2_same)
next
  case (Cons item items)
  obtain w1 p1 f1 where step: "process_item be item (w, p, f) = (w1, p1, f1)"
    by (cases "process_item be item (w, p, f)") auto
  with process_item_settled [OF assms, of item w p f]
  have a: "list_all2 (settled u [item]) (sync_queue w) (sync_queue w1)" by simp
  have b: "list_all2 (settled u items) (sync_queue w1) (sync_queue (fst (drain_loop be items (w1, p1, f1))))"
    by (rule Cons.IH)
  from a b have "list_all2 (settled u (item # items)) (sync_queue w) (sync_queue (fst (drain_loop be items (w1, p1, f1))))"
    by (rule list_all2_trans [rotated]) (rule settled_step)
  with step show ?case by simp
qed

lemma select_pending_set:
  "set (select_pending u q) = {r \<in> set q. user_id r = u \<and> status r = Pending}"
  by (auto simp: select_pending_def)

lemma drain_leaves_no_pending:
  assumes "auth_user be = Some u" and "queue_error be = None"
    and "r' \<in> set (sync_queue (fst (drain_loop be (select_pending u (sync_queue w)) (w, p, f))))"
    and "user_id r' = u"
  shows "status r' \<noteq> Pending"
proof
  assume pend: "status r' = Pending"
  let ?q' = "sync_queue (fst (drain_loop be (select_pending u (sync_queue w)) (w, p, f)))"
  have rel: "list_all2 (settled u (select_pending u (sync_queue w))) (sync_queue w) ?q'"
    using assms(1,2) by (rule drain_loop_settled)
  from assms(3) obtain k where k: "k < length ?q'" "?q' ! k = r'"
    by (auto simp: in_set_conv_nth)
  from rel k have len: "k < length (sync_queue w)" by (simp add: list_all2_lengthD)
  from rel k len have s: "settled u (select_pending u (sync_queue w)) (sync_queue w ! k) r'"
    by (auto dest: list_all2_nthD)
  let ?r = "sync_queue w ! k"
  from s pend assms(4) have "status ?r = Pending" "user_id ?r = u"
    and no: "item_id ?r \<notin> item_id ` set (select_pending u (sync_queue w))"
    by (auto simp: settled_def)
  moreover from len have "?r \<in> set (sync_queue w)" by simp
  ultimately have "?r \<in> set (select_pending u (sync_queue w))"
    by (simp add: select_pending_set)
  with no show False by blast
qed

lemma processSyncQueue_signed_in:
  assumes "auth_user be = Some u" and "queue_error be = None"
  shows "fst (processSyncQueue be w) = Inr (snd (drain_loop be (select_pending u (sync_queue w)) (w, 0, 0)))"
    and "snd (processSyncQueue be w) = fst (drain_loop be (select_pending u (sync_queue w)) (w, 0, 0))"
  using assms by (simp_all add: processSyncQueue_def case_prod_beta)

text \<open>The definitions that a concrete run unfolds.\<close>

lemmas run_simps =
  processSyncQueue_def table_backend_def device_def queued_def select_pending_def
  process_item_def replay_def replay_store_def payload_id_def table_update_def table_insert_def
  table_delete_def matches_def set_fields_def
  queue_update_def rls_def mark_synced_def mark_failed_def

text \<open>The update that \<open>retryFailedItem\<close> sends, written out.\<close>

lemma reset_rows:
  "(\<lambda>r. if item_id r = i \<and> user_id r = u then reset_item r else r)
   = (\<lambda>r. if item_id r = i \<and> user_id r = u
           then r\<lparr>status := Pending, attempts := 0, error_message := None\<rparr> else r)"
  by (simp add: reset_item_def fun_eq_iff)

section \<open>What the loop writes into the queue\<close>

text \<open>
  The two ways out of the loop body: a rejected replay marks the rows of the item failed, with
  the message and one more attempt than the fetched item had; a replay that resolves, whatever
  its response holds, marks them synced. Every operation keeps the rows well marked, and a
  drain leaves a row that was not pending as it is when the ids are distinct, as the primary
  key makes them.
\<close>

lemma rejected_replay_marks_failed:
  assumes "auth_user be = Some u" and "queue_error be = None"
    and "replay be item (store w) = Rejected msg"
  shows "process_item be item (w, p, f) =
     (w\<lparr>sync_queue :=
          map (\<lambda>r. if item_id r = item_id item \<and> user_id r = u
                   then r\<lparr>status := Failed, error_message := Some msg, attempts := attempts item + 1\<rparr>
                   else r) (sync_queue w)\<rparr>, p, f + 1)"
proof -
  have "(\<lambda>r. if item_id r = item_id item \<and> user_id r = u then mark_failed msg item r else r)
      = (\<lambda>r. if item_id r = item_id item \<and> user_id r = u
              then r\<lparr>status := Failed, error_message := Some msg, attempts := attempts item + 1\<rparr>
              else r)"
    by (simp add: mark_failed_def fun_eq_iff)
  with assms show ?thesis
    by (simp add: process_item_def queue_update_def rls_def)
qed

lemma resolved_replay_marks_synced:
  assumes "auth_user be = Some u" and "queue_error be = None"
    and "replay be item (store w) = Responded e s'"
  shows "process_item be item (w, p, f) =
     (w\<lparr>store := s',
        sync_queue :=
          map (\<lambda>r. if item_id r = item_id item \<and> user_id r = u
                   then r\<lparr>status := Synced, synced_at := Some (date_now be)\<rparr>
                   else r) (sync_queue w)\<rparr>, p + 1, f)"
proof -
  have "(\<lambda>r. if item_id r = item_id item \<and> user_id r = u then mark_synced be r else r)
      = (\<lambda>r. if item_id r = item_id item \<and> user_id r = u
              then r\<lparr>status := Synced, synced_at := Some (date_now be)\<rparr>
              else r)"
    by (simp add: mark_synced_def fun_eq_iff)
  with assms show ?thesis
    by (simp add: process_item_def queue_update_def rls_def)
qed

lemma queue_update_well_marked:
  assumes "well_marked q"
    and "\<And>r. r \<in> set q \<Longrightarrow> 0 \<le> attempts (g r) \<and>
            (status (g r) = Failed \<longrightarrow> 1 \<le> attempts (g r) \<and> error_message (g r) \<noteq> None)"
  shows "well_marked (snd (queue_update be i g q))"
  using assms by (cases "queue_error be") (auto simp: queue_update_def well_marked_def)

lemma process_item_well_marked:
  assumes "well_marked (sync_queue w)" and "0 \<le> attempts item"
  shows "well_marked (sync_queue (fst (process_item be item (w, p, f))))"
proof (cases rule: process_item_cases [of be item w p f])
  case (resolved e s')
  have "well_marked (snd (queue_update be (item_id item) (mark_synced be) (sync_queue w)))"
    using assms(1)
    by (rule queue_update_well_marked) (use assms(1) in \<open>auto simp: mark_synced_def well_marked_def\<close>)
  with resolved show ?thesis by simp
next
  case (rejected msg)
  have "well_marked (snd (queue_update be (item_id item) (mark_failed msg item) (sync_queue w)))"
    using assms(1) by (rule queue_update_well_marked) (use assms(2) in \<open>simp add: mark_failed_def\<close>)
  with rejected show ?thesis by simp
qed

lemma drain_loop_well_marked:
  assumes "\<forall>item \<in> set items. 0 \<le> attempts item"
  shows "well_marked (sync_queue w) \<Longrightarrow> well_marked (sync_queue (fst (drain_loop be items (w, p, f))))"
  using assms
proof (induction items arbitrary: w p f)
  case Nil
  then show ?case by simp
next
  case (Cons item items)
  obtain w1 p1 f1 where step: "process_item be item (w, p, f) = (w1, p1, f1)"
    by (cases "process_item be item (w, p, f)") auto
  from Cons.prems have "well_marked (sync_queue (fst (process_item be item (w, p, f))))"
    by (intro process_item_well_marked) simp_all
  with step have "well_marked (sync_queue w1)" by simp
  moreover from Cons.prems have "\<forall>item \<in> set items. 0 \<le> attempts item" by simp
  ultimately have "well_marked (sync_queue (fst (drain_loop be items (w1, p1, f1))))"
    by (rule Cons.IH)
  with step show ?case by simp
qed

lemma drain_keeps_failed_rows_marked:
  assumes "well_marked (sync_queue w)"
  shows "well_marked (sync_queue (snd (processSyncQueue be w)))"
proof (cases "auth_user be")
  case None
  with assms show ?thesis by (simp add: processSyncQueue_def)
next
  case (Some u)
  show ?thesis
  proof (cases "queue_error be")
    case (Some e)
    with \<open>auth_user be = Some u\<close> assms show ?thesis by (simp add: processSyncQueue_def)
  next
    case None
    have "\<forall>item \<in> set (select_pending u (sync_queue w)). 0 \<le> attempts item"
      using assms by (auto simp: select_pending_set well_marked_def)
    then have "well_marked (sync_queue (fst (drain_loop be (select_pending u (sync_queue w)) (w, 0, 0))))"
      using assms by (intro drain_loop_well_marked)
    with \<open>auth_user be = Some u\<close> None show ?thesis
      by (simp add: processSyncQueue_signed_in)
  qed
qed

lemma drain_keeps_settled_rows:
  assumes "auth_user be = Some u" and "queue_error be = None"
    and "distinct (map item_id (sync_queue w))"
    and "k < length (sync_queue w)" and "status (sync_queue w ! k) \<noteq> Pending"
  shows "sync_queue (snd (processSyncQueue be w)) ! k = sync_queue w ! k"
proof -
  let ?items = "select_pending u (sync_queue w)"
  let ?q' = "sync_queue (fst (drain_loop be ?items (w, 0, 0)))"
  let ?r = "sync_queue w ! k"
  have "list_all2 (settled u ?items) (sync_queue w) ?q'"
    using assms(1,2) by (rule drain_loop_settled)
  from this assms(4) have s: "settled u ?items ?r (?q' ! k)"
    by (rule list_all2_nthD)
  have "item_id ?r \<notin> item_id ` set ?items"
  proof
    assume "item_id ?r \<in> item_id ` set ?items"
    then obtain x where x: "x \<in> set ?items" "item_id x = item_id ?r" by auto
    then have "x \<in> set (sync_queue w)" "status x = Pending"
      by (simp_all add: select_pending_set)
    moreover have "?r \<in> set (sync_queue w)" using assms(4) by simp
    moreover have "inj_on item_id (set (sync_queue w))"
      using assms(3) by (simp add: distinct_map)
    ultimately have "x = ?r" using x(2) by (auto dest: inj_onD)
    with \<open>status x = Pending\<close> assms(5) show False by simp
  qed
  with s have "?q' ! k = ?r" by (auto simp: settled_def)
  then show ?thesis by (simp add: processSyncQueue_signed_in [OF assms(1,2)])
qed

lemma syncNow_keeps_failed_rows_marked:
  assumes "well_marked (sync_queue w)"
  shows "well_marked (sync_queue (snd (syncNow be w)))"
proof -
  obtain res w' where run: "processSyncQueue be w = (res, w')"
    by (cases "processSyncQueue be w") auto
  with drain_keeps_failed_rows_marked [OF assms, of be] have "well_marked (sync_queue w')"
    by simp
  with run assms show ?thesis
    by (cases res) (simp_all add: syncNow_def)
qed

lemma retry_keeps_failed_rows_marked:
  assumes "well_marked (sync_queue w)"
  shows "well_marked (sync_queue (snd (retryFailedItem be i w)))"
proof -
  have q: "well_marked (snd (queue_update be i reset_item (sync_queue w)))"
    using assms
    by (rule queue_update_well_marked) (use assms in \<open>auto simp: reset_item_def well_marked_def\<close>)
  obtain e q' where upd: "queue_update be i reset_item (sync_queue w) = (e, q')"
    by (cases "queue_update be i reset_item (sync_queue w)") auto
  with q have "well_marked (sync_queue (w\<lparr>sync_queue := q'\<rparr>))" by simp
  then have "well_marked (sync_queue (snd (syncNow be (w\<lparr>sync_queue := q'\<rparr>))))"
    by (rule syncNow_keeps_failed_rows_marked)
  with upd q show ?thesis
    by (cases e) (simp_all add: retryFailedItem_def)
qed

lemma clear_keeps_failed_rows_marked:
  assumes "well_marked (sync_queue w)"
  shows "well_marked (sync_queue (snd (clearSyncedItems be w)))"
  using assms
  by (auto simp: clearSyncedItems_def queue_delete_synced_def well_marked_def split: option.splits)

lemma enqueue_keeps_failed_rows_marked:
  assumes "well_marked (sync_queue w)"
  shows "well_marked (sync_queue (snd (queueOfflineOperation be opn t d w)))"
  using assms
  by (auto simp: queueOfflineOperation_def queue_insert_def new_row_def well_marked_def Let_def
      split: option.splits)

text \<open>One replay, written out in the requests it sends to the backend.\<close>

lemma replay_store_requests:
  "replay_store be =
     (\<lambda>s item.
        case (case operation item of
                Insert \<Rightarrow> remote_insert be (table_name item) (record_data item) s
              | Update \<Rightarrow> remote_update be (table_name item) (record_data item)
                            (map_of (record_data item) ''id'') s
              | Delete \<Rightarrow> remote_delete be (table_name item)
                            (map_of (record_data item) ''id'') s) of
          Responded e s' \<Rightarrow> s'
        | Rejected msg \<Rightarrow> s)"
  by (simp add: fun_eq_iff replay_store_def replay_def payload_id_def split: operation.splits)

section \<open>The claims\<close>

text \<open>
  C1. For a signed-in user whose queue requests are served, the drain fetches exactly the
  rows of \<open>sync_queue\<close> that belong to the user and are pending, in ascending order of
  creation time, and replays them one after the other in that order: the remote tables after
  the drain are those reached by sending, for each fetched item in turn, the insert of its
  record, the update of its record on the row with the record's id, or the delete of the row
  with the record's id, a rejected request leaving the tables as they were.
\<close>

theorem drain_replays_pending_in_creation_order:
  assumes "auth_user be = Some u" and "queue_error be = None"
  shows "mset (select_pending u (sync_queue w))
           = filter_mset (\<lambda>r. user_id r = u \<and> status r = Pending) (mset (sync_queue w))
       \<and> sorted (map created_at (select_pending u (sync_queue w)))
       \<and> (\<exists>counts. fst (processSyncQueue be w) = Inr counts)
       \<and> store (snd (processSyncQueue be w))
           = foldl
               (\<lambda>s item.
                  case (case operation item of
                          Insert \<Rightarrow> remote_insert be (table_name item) (record_data item) s
                        | Update \<Rightarrow> remote_update be (table_name item) (record_data item)
                                      (map_of (record_data item) ''id'') s
                        | Delete \<Rightarrow> remote_delete be (table_name item)
                                      (map_of (record_data item) ''id'') s) of
                    Responded e s' \<Rightarrow> s'
                  | Rejected msg \<Rightarrow> s)
               (store w) (select_pending u (sync_queue w))"
proof -
  have "mset (select_pending u (sync_queue w))
      = filter_mset (\<lambda>r. user_id r = u \<and> status r = Pending) (mset (sync_queue w))"
    by (simp add: select_pending_def)
  moreover have "sorted (map created_at (select_pending u (sync_queue w)))"
    by (simp add: select_pending_def)
  moreover have "\<exists>counts. fst (processSyncQueue be w) = Inr counts"
    by (simp add: processSyncQueue_signed_in [OF assms])
  moreover have "store (snd (processSyncQueue be w))
      = foldl (replay_store be) (store w) (select_pending u (sync_queue w))"
    by (simp add: processSyncQueue_signed_in [OF assms] drain_loop_store)
  ultimately show ?thesis
    unfolding replay_store_requests by blast
qed

theorem drain_replays_pending_in_creation_order_witness:
  "auth_user (table_backend (Some ''alice'') 50 ''q9'' True) = Some ''alice''
   \<and> queue_error (table_backend (Some ''alice'') 50 ''q9'' True) = None
   \<and> store (snd (processSyncQueue (table_backend (Some ''alice'') 50 ''q9'' True)
        (device
          [queued ''q1'' ''alice'' Update ''annotations'' [(''id'', ''a1''), (''label'', ''crater'')] Pending 30,
           queued ''q2'' ''alice'' Insert ''annotations'' [(''id'', ''a1'')] Pending 10,
           queued ''q3'' ''bob'' Insert ''annotations'' [(''id'', ''b1'')] Pending 5,
           queued ''q4'' ''alice'' Insert ''annotations'' [(''id'', ''a0'')] Synced 1,
           queued ''q5'' ''alice'' Delete ''annotations'' [(''id'', ''a2'')] Pending 40,
           queued ''q6'' ''alice'' Insert ''annotations'' [(''id'', ''a2'')] Pending 20]
          [] True)))
      = [(''annotations'', [(''id'', ''a1''), (''label'', ''crater'')])]"
proof -
  let ?be = "table_backend (Some ''alice'') 50 ''q9'' True"
  let ?w = "device
          [queued ''q1'' ''alice'' Update ''annotations'' [(''id'', ''a1''), (''label'', ''crater'')] Pending 30,
           queued ''q2'' ''alice'' Insert ''annotations'' [(''id'', ''a1'')] Pending 10,
           queued ''q3'' ''bob'' Insert ''annotations'' [(''id'', ''b1'')] Pending 5,
           queued ''q4'' ''alice'' Insert ''annotations'' [(''id'', ''a0'')] Synced 1,
           queued ''q5'' ''alice'' Delete ''annotations'' [(''id'', ''a2'')] Pending 40,
           queued ''q6'' ''alice'' Insert ''annotations'' [(''id'', ''a2'')] Pending 20]
          [] True"
  have a: "auth_user ?be = Some ''alice''" by (simp add: table_backend_def)
  have b: "queue_error ?be = None" by (simp add: table_backend_def)
  from drain_replays_pending_in_creation_order [OF a b, of ?w] a b show ?thesis
    by (simp add: run_simps)
qed

text \<open>
  C5. For a signed-in user whose queue requests are served, the drain returns a pair of
  counts that add up to the number of fetched items, the second being the number of items
  whose replay was rejected; the remote tables after the drain are the fold of all the
  replays, so that a rejected replay neither stops the items after it nor undoes the items
  before it; and no row of the user is pending after the drain.
\<close>

theorem drain_is_not_transactional:
  assumes "auth_user be = Some u" and "queue_error be = None"
  shows "(\<exists>processed failed.
            fst (processSyncQueue be w) = Inr (processed, failed)
          \<and> processed + failed = length (select_pending u (sync_queue w))
          \<and> failed = rejected_count be (store w) (select_pending u (sync_queue w)))
       \<and> store (snd (processSyncQueue be w))
            = foldl (replay_store be) (store w) (select_pending u (sync_queue w))
       \<and> (\<forall>r \<in> set (sync_queue (snd (processSyncQueue be w))). user_id r = u \<longrightarrow> status r \<noteq> Pending)"
proof -
  let ?items = "select_pending u (sync_queue w)"
  obtain w' p f where loop: "drain_loop be ?items (w, 0, 0) = (w', p, f)"
    by (cases "drain_loop be ?items (w, 0, 0)") auto
  from drain_loop_counts [OF loop]
  have counts: "p + f = length ?items" "f = rejected_count be (store w) ?items"
    by simp_all
  from loop have res: "fst (processSyncQueue be w) = Inr (p, f)"
    by (simp add: processSyncQueue_signed_in [OF assms])
  have st: "store (snd (processSyncQueue be w)) = foldl (replay_store be) (store w) ?items"
    by (simp add: processSyncQueue_signed_in [OF assms] drain_loop_store)
  have "\<forall>r \<in> set (sync_queue (snd (processSyncQueue be w))). user_id r = u \<longrightarrow> status r \<noteq> Pending"
    using drain_leaves_no_pending [OF assms, of _ w 0 0]
    by (auto simp: processSyncQueue_signed_in [OF assms])
  with res counts st show ?thesis by blast
qed

theorem drain_is_not_transactional_witness:
  "auth_user (table_backend (Some ''alice'') 50 ''q9'' True) = Some ''alice''
   \<and> queue_error ((table_backend (Some ''alice'') 50 ''q9'' True)
        \<lparr>remote_update := \<lambda>t d i s. Rejected ''fetch failed''\<rparr>) = None
   \<and> processSyncQueue ((table_backend (Some ''alice'') 50 ''q9'' True)
        \<lparr>remote_update := \<lambda>t d i s. Rejected ''fetch failed''\<rparr>)
        (device
          [queued ''q1'' ''alice'' Insert ''annotations'' [(''id'', ''a1'')] Pending 10,
           queued ''q2'' ''alice'' Update ''annotations'' [(''id'', ''a1''), (''label'', ''x'')] Pending 20,
           queued ''q3'' ''alice'' Insert ''annotations'' [(''id'', ''a2'')] Pending 30]
          [] True)
      = (Inr (2, 1),
         device
          [(queued ''q1'' ''alice'' Insert ''annotations'' [(''id'', ''a1'')] Pending 10)
             \<lparr>status := Synced, synced_at := Some 50\<rparr>,
           (queued ''q2'' ''alice'' Update ''annotations'' [(''id'', ''a1''), (''label'', ''x'')] Pending 20)
             \<lparr>status := Failed, error_message := Some ''fetch failed'', attempts := 1\<rparr>,
           (queued ''q3'' ''alice'' Insert ''annotations'' [(''id'', ''a2'')] Pending 30)
             \<lparr>status := Synced, synced_at := Some 50\<rparr>]
          [(''annotations'', [(''id'', ''a1'')]), (''annotations'', [(''id'', ''a2'')])] True)"
proof -
  let ?be = "(table_backend (Some ''alice'') 50 ''q9'' True)
        \<lparr>remote_update := \<lambda>t d i s. Rejected ''fetch failed''\<rparr>"
  let ?w = "device
          [queued ''q1'' ''alice'' Insert ''annotations'' [(''id'', ''a1'')] Pending 10,
           queued ''q2'' ''alice'' Update ''annotations'' [(''id'', ''a1''), (''label'', ''x'')] Pending 20,
           queued ''q3'' ''alice'' Insert ''annotations'' [(''id'', ''a2'')] Pending 30]
          [] True"
  have a: "auth_user ?be = Some ''alice''" by (simp add: table_backend_def)
  have b: "queue_error ?be = None" by (simp add: table_backend_def)
  from drain_is_not_transactional [OF a b, of ?w] a b show ?thesis
    by (simp add: run_simps)
qed

text \<open>
  C10. Without a signed-in user \<open>processSyncQueue\<close> returns the counts (0, 0) and the
  state it was given, whatever the rows of the queue and whatever the backend would answer;
  with \<open>SyncService.isOnline\<close> false, \<open>syncNow\<close> does the same.
\<close>

theorem sync_without_user_or_connectivity_is_noop:
  "(auth_user be = None \<longrightarrow> processSyncQueue be w = (Inr (0, 0), w))
   \<and> (\<not> isOnline w \<longrightarrow> syncNow be w = ((0, 0), w))"
  by (simp add: processSyncQueue_def syncNow_def)

theorem sync_without_user_or_connectivity_is_noop_witness:
  "auth_user (unreachable_backend None 50) = None
   \<and> processSyncQueue (unreachable_backend None 50)
        (device [queued ''q1'' ''alice'' Insert ''annotations'' [(''id'', ''a1'')] Pending 10] [] True)
      = (Inr (0, 0),
         device [queued ''q1'' ''alice'' Insert ''annotations'' [(''id'', ''a1'')] Pending 10] [] True)
   \<and> \<not> isOnline (device [queued ''q1'' ''alice'' Insert ''annotations'' [(''id'', ''a1'')] Pending 10] [] False)
   \<and> syncNow (table_backend (Some ''alice'') 50 ''q9'' True)
        (device [queued ''q1'' ''alice'' Insert ''annotations'' [(''id'', ''a1'')] Pending 10] [] False)
      = ((0, 0),
         device [queued ''q1'' ''alice'' Insert ''annotations'' [(''id'', ''a1'')] Pending 10] [] False)"
  using sync_without_user_or_connectivity_is_noop
      [of "unreachable_backend None 50"
          "device [queued ''q1'' ''alice'' Insert ''annotations'' [(''id'', ''a1'')] Pending 10] [] True"]
    sync_without_user_or_connectivity_is_noop
      [of "table_backend (Some ''alice'') 50 ''q9'' True"
          "device [queued ''q1'' ''alice'' Insert ''annotations'' [(''id'', ''a1'')] Pending 10] [] False"]
  by (simp add: unreachable_backend_def device_def)

text \<open>
  C6, as stated, fails in two ways. With \<open>SyncService.isOnline\<close> false the failed item
  is reset but nothing is drained: the item stays pending and its insert is not sent, as it
  would be by a drain from that state (first and second run). Called by a user who does not
  own the item, the update is stopped by the row-level security of \<open>sync_queue\<close> and
  the item stays failed with its attempts and message (third run).
\<close>

theorem retry_drains_nothing_offline_and_skips_foreign_rows:
  "retryFailedItem (table_backend (Some ''alice'') 50 ''q9'' True) ''q1''
      (device
        [(queued ''q1'' ''alice'' Insert ''annotations'' [(''id'', ''a1'')] Pending 10)
           \<lparr>status := Failed, error_message := Some ''fetch failed'', attempts := 1\<rparr>]
        [] False)
     = (Inr (),
        device [queued ''q1'' ''alice'' Insert ''annotations'' [(''id'', ''a1'')] Pending 10] [] False)
   \<and> store (snd (processSyncQueue (table_backend (Some ''alice'') 50 ''q9'' True)
        (device [queued ''q1'' ''alice'' Insert ''annotations'' [(''id'', ''a1'')] Pending 10] [] False)))
     = [(''annotations'', [(''id'', ''a1'')])]
   \<and> retryFailedItem (table_backend (Some ''bob'') 50 ''q9'' True) ''q1''
      (device
        [(queued ''q1'' ''alice'' Insert ''annotations'' [(''id'', ''a1'')] Pending 10)
           \<lparr>status := Failed, error_message := Some ''fetch failed'', attempts := 1\<rparr>]
        [] True)
     = (Inr (),
        (device
          [(queued ''q1'' ''alice'' Insert ''annotations'' [(''id'', ''a1'')] Pending 10)
             \<lparr>status := Failed, error_message := Some ''fetch failed'', attempts := 1\<rparr>]
          [] True)
        \<lparr>last_sync_time := Some 50\<rparr>)"
  by (simp add: run_simps retryFailedItem_def syncNow_def reset_item_def)

text \<open>
  C6, amended. For the signed-in user, when the backend serves the update,
  \<open>retryFailedItem i\<close> turns every row of the user with id \<open>i\<close>, a failed item with
  that id among them, into a pending row with attempts 0 and no error message. With
  \<open>SyncService.isOnline\<close> true it then drains the queue from that state, the reset item
  being among the items the drain fetches, and records the time of the sync; with the flag
  false nothing is drained and the state is the one with the reset rows.
\<close>

theorem retry_resets_owned_item_and_drains_when_online:
  assumes "auth_user be = Some u" and "queue_error be = None"
    and "q' = map (\<lambda>r. if item_id r = i \<and> user_id r = u
                         then r\<lparr>status := Pending, attempts := 0, error_message := None\<rparr> else r)
                 (sync_queue w)"
  shows "(isOnline w \<longrightarrow>
            retryFailedItem be i w
              = (Inr (),
                 (fst (drain_loop be (select_pending u q') (w\<lparr>sync_queue := q'\<rparr>, 0, 0)))
                   \<lparr>last_sync_time := Some (date_now be)\<rparr>))
       \<and> (\<not> isOnline w \<longrightarrow> retryFailedItem be i w = (Inr (), w\<lparr>sync_queue := q'\<rparr>))
       \<and> (\<forall>r \<in> set (sync_queue w). item_id r = i \<and> user_id r = u \<and> status r = Failed \<longrightarrow>
            r\<lparr>status := Pending, attempts := 0, error_message := None\<rparr> \<in> set q'
          \<and> r\<lparr>status := Pending, attempts := 0, error_message := None\<rparr> \<in> set (select_pending u q'))
       \<and> (\<forall>r \<in> set q'. item_id r = i \<and> user_id r = u \<longrightarrow>
            status r = Pending \<and> attempts r = 0 \<and> error_message r = None)"
proof -
  let ?f = "\<lambda>r. if item_id r = i \<and> user_id r = u
                then r\<lparr>status := Pending, attempts := 0, error_message := None\<rparr> else r"
  let ?w1 = "w\<lparr>sync_queue := q'\<rparr>"
  have q': "q' = map ?f (sync_queue w)" by (rule assms(3))
  have "queue_update be i reset_item (sync_queue w) = (None, q')"
    by (simp add: queue_update_def rls_def assms(1,2) q' reset_rows)
  then have run: "retryFailedItem be i w = (Inr (), snd (syncNow be ?w1))"
    by (simp add: retryFailedItem_def)
  have offline: "\<not> isOnline w \<longrightarrow> retryFailedItem be i w = (Inr (), ?w1)"
    by (simp add: run syncNow_def)
  obtain w' p f where loop: "drain_loop be (select_pending u q') (?w1, 0, 0) = (w', p, f)"
    by (cases "drain_loop be (select_pending u q') (?w1, 0, 0)") auto
  then have "processSyncQueue be ?w1 = (Inr (p, f), w')"
    by (simp add: processSyncQueue_def assms(1,2))
  then have "isOnline w \<longrightarrow> snd (syncNow be ?w1) = w'\<lparr>last_sync_time := Some (date_now be)\<rparr>"
    by (simp add: syncNow_def)
  with loop run have online: "isOnline w \<longrightarrow>
      retryFailedItem be i w
        = (Inr (),
           (fst (drain_loop be (select_pending u q') (?w1, 0, 0)))
             \<lparr>last_sync_time := Some (date_now be)\<rparr>)"
    by simp
  have reset: "\<forall>r \<in> set q'. item_id r = i \<and> user_id r = u \<longrightarrow>
      status r = Pending \<and> attempts r = 0 \<and> error_message r = None"
  proof (intro ballI impI)
    fix r assume "r \<in> set q'" and own: "item_id r = i \<and> user_id r = u"
    then obtain r0 where "r0 \<in> set (sync_queue w)" and r: "r = ?f r0"
      unfolding q' set_map by (elim imageE)
    show "status r = Pending \<and> attempts r = 0 \<and> error_message r = None"
    proof (cases "item_id r0 = i \<and> user_id r0 = u")
      case True
      with r show ?thesis by simp
    next
      case False
      with r own show ?thesis by simp
    qed
  qed
  have fetched: "\<forall>r \<in> set (sync_queue w). item_id r = i \<and> user_id r = u \<and> status r = Failed \<longrightarrow>
            r\<lparr>status := Pending, attempts := 0, error_message := None\<rparr> \<in> set q'
          \<and> r\<lparr>status := Pending, attempts := 0, error_message := None\<rparr> \<in> set (select_pending u q')"
  proof (intro ballI impI)
    fix r assume mem: "r \<in> set (sync_queue w)"
      and own: "item_id r = i \<and> user_id r = u \<and> status r = Failed"
    from mem have "?f r \<in> set q'"
      unfolding q' by (rule imageI [of r "set (sync_queue w)" ?f, folded set_map])
    with own have "r\<lparr>status := Pending, attempts := 0, error_message := None\<rparr> \<in> set q'"
      by simp
    with own show "r\<lparr>status := Pending, attempts := 0, error_message := None\<rparr> \<in> set q'
          \<and> r\<lparr>status := Pending, attempts := 0, error_message := None\<rparr> \<in> set (select_pending u q')"
      by (simp add: select_pending_set)
  qed
  from online offline fetched reset show ?thesis by (intro conjI)
qed

theorem retry_resets_owned_item_and_drains_when_online_witness:
  "auth_user (table_backend (Some ''alice'') 50 ''q9'' True) = Some ''alice''
   \<and> queue_error (table_backend (Some ''alice'') 50 ''q9'' True) = None
   \<and> isOnline (device
          [(queued ''q1'' ''alice'' Insert ''annotations'' [(''id'', ''a1'')] Pending 10)
             \<lparr>status := Failed, error_message := Some ''fetch failed'', attempts := 1\<rparr>]
          [] True)
   \<and> status ((queued ''q1'' ''alice'' Insert ''annotations'' [(''id'', ''a1'')] Pending 10)
        \<lparr>status := Failed, error_message := Some ''fetch failed'', attempts := 1\<rparr>) = Failed
   \<and> retryFailedItem (table_backend (Some ''alice'') 50 ''q9'' True) ''q1''
        (device
          [(queued ''q1'' ''alice'' Insert ''annotations'' [(''id'', ''a1'')] Pending 10)
             \<lparr>status := Failed, error_message := Some ''fetch failed'', attempts := 1\<rparr>]
          [] True)
      = (Inr (),
         (device
           [(queued ''q1'' ''alice'' Insert ''annotations'' [(''id'', ''a1'')] Pending 10)
              \<lparr>status := Synced, synced_at := Some 50\<rparr>]
           [(''annotations'', [(''id'', ''a1'')])] True)
         \<lparr>last_sync_time := Some 50\<rparr>)
   \<and> \<not> isOnline (device
          [(queued ''q1'' ''alice'' Insert ''annotations'' [(''id'', ''a1'')] Pending 10)
             \<lparr>status := Failed, error_message := Some ''fetch failed'', attempts := 1\<rparr>]
          [] False)
   \<and> retryFailedItem (table_backend (Some ''alice'') 50 ''q9'' True) ''q1''
        (device
          [(queued ''q1'' ''alice'' Insert ''annotations'' [(''id'', ''a1'')] Pending 10)
             \<lparr>status := Failed, error_message := Some ''fetch failed'', attempts := 1\<rparr>]
          [] False)
      = (Inr (),
         device [queued ''q1'' ''alice'' Insert ''annotations'' [(''id'', ''a1'')] Pending 10] [] False)
   \<and> select_pending ''alice''
        [queued ''q1'' ''alice'' Insert ''annotations'' [(''id'', ''a1'')] Pending 10]
      = [queued ''q1'' ''alice'' Insert ''annotations'' [(''id'', ''a1'')] Pending 10]"
proof -
  let ?be = "table_backend (Some ''alice'') 50 ''q9'' True"
  let ?q = "[(queued ''q1'' ''alice'' Insert ''annotations'' [(''id'', ''a1'')] Pending 10)
             \<lparr>status := Failed, error_message := Some ''fetch failed'', attempts := 1\<rparr>]"
  have a: "auth_user ?be = Some ''alice''" by (simp add: table_backend_def)
  have b: "queue_error ?be = None" by (simp add: table_backend_def)
  from retry_resets_owned_item_and_drains_when_online [OF a b refl, of "device ?q [] True" "''q1''"]
       retry_resets_owned_item_and_drains_when_online [OF a b refl, of "device ?q [] False" "''q1''"]
       a b
  show ?thesis
    by (simp add: run_simps)
qed

text \<open>
  C7. \<open>clearSyncedItems\<close> leaves the rows that are not synced as they are, in their
  order, and does not touch the remote tables; for a signed-in user whose request is
  served, the rows it deletes are exactly the synced rows of that user.
\<close>

theorem clear_removes_exactly_synced_items:
  "filter (\<lambda>r. status r \<noteq> Synced) (sync_queue (snd (clearSyncedItems be w)))
     = filter (\<lambda>r. status r \<noteq> Synced) (sync_queue w)
   \<and> store (snd (clearSyncedItems be w)) = store w
   \<and> (auth_user be = Some u \<and> queue_error be = None \<longrightarrow>
        clearSyncedItems be w
          = (Inr (), w\<lparr>sync_queue := filter (\<lambda>r. \<not> (user_id r = u \<and> status r = Synced)) (sync_queue w)\<rparr>)
      \<and> set (sync_queue (snd (clearSyncedItems be w)))
          = set (sync_queue w) - {r. user_id r = u \<and> status r = Synced})"
proof -
  have keep: "filter (\<lambda>r. status r \<noteq> Synced) (sync_queue (snd (clearSyncedItems be w)))
      = filter (\<lambda>r. status r \<noteq> Synced) (sync_queue w)"
    by (auto simp: clearSyncedItems_def queue_delete_synced_def split: option.splits intro: filter_cong)
  have st: "store (snd (clearSyncedItems be w)) = store w"
    by (simp add: clearSyncedItems_def queue_delete_synced_def split: option.splits)
  have "clearSyncedItems be w
      = (Inr (), w\<lparr>sync_queue := filter (\<lambda>r. \<not> (user_id r = u \<and> status r = Synced)) (sync_queue w)\<rparr>)"
    if "auth_user be = Some u" "queue_error be = None"
    using that by (simp add: clearSyncedItems_def queue_delete_synced_def rls_def cong: conj_cong)
  then have "auth_user be = Some u \<and> queue_error be = None \<longrightarrow>
        clearSyncedItems be w
          = (Inr (), w\<lparr>sync_queue := filter (\<lambda>r. \<not> (user_id r = u \<and> status r = Synced)) (sync_queue w)\<rparr>)
      \<and> set (sync_queue (snd (clearSyncedItems be w)))
          = set (sync_queue w) - {r. user_id r = u \<and> status r = Synced}"
    by auto
  with keep st show ?thesis by blast
qed

theorem clear_removes_exactly_synced_items_witness:
  "auth_user (table_backend (Some ''alice'') 50 ''q9'' True) = Some ''alice''
   \<and> queue_error (table_backend (Some ''alice'') 50 ''q9'' True) = None
   \<and> clearSyncedItems (table_backend (Some ''alice'') 50 ''q9'' True)
        (device
          [queued ''q1'' ''alice'' Insert ''annotations'' [(''id'', ''a1'')] Synced 10,
           queued ''q2'' ''alice'' Insert ''annotations'' [(''id'', ''a2'')] Pending 20,
           queued ''q3'' ''alice'' Insert ''annotations'' [(''id'', ''a3'')] Failed 30,
           queued ''q4'' ''bob'' Insert ''annotations'' [(''id'', ''b1'')] Synced 40]
          [] True)
      = (Inr (),
         device
          [queued ''q2'' ''alice'' Insert ''annotations'' [(''id'', ''a2'')] Pending 20,
           queued ''q3'' ''alice'' Insert ''annotations'' [(''id'', ''a3'')] Failed 30,
           queued ''q4'' ''bob'' Insert ''annotations'' [(''id'', ''b1'')] Synced 40]
          [] True)"
proof -
  let ?be = "table_backend (Some ''alice'') 50 ''q9'' True"
  let ?w = "device
          [queued ''q1'' ''alice'' Insert ''annotations'' [(''id'', ''a1'')] Synced 10,
           queued ''q2'' ''alice'' Insert ''annotations'' [(''id'', ''a2'')] Pending 20,
           queued ''q3'' ''alice'' Insert ''annotations'' [(''id'', ''a3'')] Failed 30,
           queued ''q4'' ''bob'' Insert ''annotations'' [(''id'', ''b1'')] Synced 40]
          [] True"
  have a: "auth_user ?be = Some ''alice''" by (simp add: table_backend_def)
  have b: "queue_error ?be = None" by (simp add: table_backend_def)
  from clear_removes_exactly_synced_items [of ?be ?w "''alice''"] a b show ?thesis
    by (simp add: device_def queued_def)
qed

text \<open>
  C8. Without a signed-in user \<open>queueOfflineOperation\<close> throws
  \<open>User not authenticated\<close> and leaves the state as it was. With a signed-in user, when
  the backend accepts the insert (the request is served and the generated id is new), it
  appends one row for that user with the given operation, table and payload, status pending,
  attempts 0 and no error message, and returns it. The queue never changes without a
  signed-in user.
\<close>

theorem enqueue_requires_authenticated_actor:
  "(auth_user be = None \<longrightarrow>
      queueOfflineOperation be opn t d w = (Inl ''User not authenticated'', w))
   \<and> (auth_user be = Some u \<and> queue_error be = None
        \<and> new_uuid be \<notin> item_id ` set (sync_queue w) \<longrightarrow>
      (\<exists>r. queueOfflineOperation be opn t d w = (Inr r, w\<lparr>sync_queue := sync_queue w @ [r]\<rparr>)
          \<and> status r = Pending \<and> attempts r = 0 \<and> error_message r = None \<and> synced_at r = None
          \<and> user_id r = u \<and> operation r = opn \<and> table_name r = t \<and> record_data r = d))
   \<and> (sync_queue (snd (queueOfflineOperation be opn t d w)) \<noteq> sync_queue w \<longrightarrow> auth_user be \<noteq> None)"
  by (auto simp: queueOfflineOperation_def queue_insert_def new_row_def rls_def Let_def
      split: option.splits)

theorem enqueue_requires_authenticated_actor_witness:
  "auth_user (table_backend None 50 ''q9'' False) = None
   \<and> queueOfflineOperation (table_backend None 50 ''q9'' False) Insert ''annotations''
        [(''label'', ''crater'')] (device [] [] False)
      = (Inl ''User not authenticated'', device [] [] False)
   \<and> auth_user (table_backend (Some ''alice'') 50 ''q9'' False) = Some ''alice''
   \<and> queue_error (table_backend (Some ''alice'') 50 ''q9'' False) = None
   \<and> new_uuid (table_backend (Some ''alice'') 50 ''q9'' False)
        \<notin> item_id ` set (sync_queue (device [] [] False))
   \<and> queueOfflineOperation (table_backend (Some ''alice'') 50 ''q9'' False) Insert ''annotations''
        [(''label'', ''crater'')] (device [] [] False)
      = (Inr (queued ''q9'' ''alice'' Insert ''annotations'' [(''label'', ''crater'')] Pending 50),
         device [queued ''q9'' ''alice'' Insert ''annotations'' [(''label'', ''crater'')] Pending 50]
           [] False)"
  using enqueue_requires_authenticated_actor
      [of "table_backend None 50 ''q9'' False" Insert "''annotations''" "[(''label'', ''crater'')]"
          "device [] [] False" "''alice''"]
    enqueue_requires_authenticated_actor
      [of "table_backend (Some ''alice'') 50 ''q9'' False" Insert "''annotations''"
          "[(''label'', ''crater'')]" "device [] [] False" "''alice''"]
  by (simp add: table_backend_def device_def queued_def queueOfflineOperation_def
      queue_insert_def new_row_def rls_def Let_def)

text \<open>
  C9, as stated, fails: a signed-in write made while connectivity is absent throws when the
  image row cannot be obtained (here the backend cannot be reached), and also when the image
  row exists but the backend answers the insert into \<open>sync_queue\<close> with an error. In
  both runs nothing is queued.
\<close>

theorem offline_write_fails_when_a_request_fails:
  "auth_user (unreachable_backend (Some ''alice'') 50) = Some ''alice''
   \<and> \<not> isConnected (unreachable_backend (Some ''alice'') 50)
   \<and> createAnnotation (unreachable_backend (Some ''alice'') 50)
        \<lparr>nasa_data = [[(''nasa_id'', ''PIA1'')]], links = []\<rparr>
        \<lparr>bbox = None, label = Some ''crater'', annotation_type = Rectangle, text_field = None,
          properties = None, color = None\<rparr>
        (device [] [] False)
      = (Inl ''Network request failed'', device [] [] False)
   \<and> auth_user ((table_backend (Some ''alice'') 50 ''q9'' False)
        \<lparr>queue_error := Some ''Network request failed''\<rparr>) = Some ''alice''
   \<and> \<not> isConnected ((table_backend (Some ''alice'') 50 ''q9'' False)
        \<lparr>queue_error := Some ''Network request failed''\<rparr>)
   \<and> createAnnotation ((table_backend (Some ''alice'') 50 ''q9'' False)
          \<lparr>queue_error := Some ''Network request failed''\<rparr>)
        \<lparr>nasa_data = [[(''nasa_id'', ''PIA1'')]], links = []\<rparr>
        \<lparr>bbox = None, label = Some ''crater'', annotation_type = Rectangle, text_field = None,
          properties = None, color = None\<rparr>
        (device [] [(''images'', [(''id'', ''i1''), (''nasa_id'', ''PIA1'')])] False)
      = (Inl ''Network request failed'',
         device [] [(''images'', [(''id'', ''i1''), (''nasa_id'', ''PIA1'')])] False)"
  by (simp add: createAnnotation_def unreachable_backend_def table_backend_def device_def
      getOrCreateImage_def table_images_select_def payload_id_def insertData_def
      queueOfflineOperation_def queue_insert_def new_row_def Let_def)

text \<open>
  C9, amended. For a signed-in write made while connectivity is absent: if the image row is
  found or created and the backend accepts the insert into \<open>sync_queue\<close>, the
  mutation is appended to the queue as a pending insert into \<open>annotations\<close> and the
  caller receives the optimistic response; if obtaining the image row throws, or the backend
  answers the queue insert with an error, that error is thrown to the caller and nothing is
  queued.
\<close>

theorem offline_write_is_queued_when_requests_succeed:
  assumes "auth_user be = Some u" and "\<not> isConnected be"
  shows "(getOrCreateImage be nasaItem (store w) = (Inr img, s) \<and> queue_error be = None
            \<and> new_uuid be \<notin> item_id ` set (sync_queue w) \<longrightarrow>
          createAnnotation be nasaItem a w
            = (Inr (Optimistic (date_now be) (insertData img u a)),
               w\<lparr>store := s,
                 sync_queue := sync_queue w
                   @ [new_row be u Insert ''annotations'' (insertData img u a)]\<rparr>)
          \<and> status (new_row be u Insert ''annotations'' (insertData img u a)) = Pending
          \<and> attempts (new_row be u Insert ''annotations'' (insertData img u a)) = 0)
       \<and> (getOrCreateImage be nasaItem (store w) = (Inl e, s) \<longrightarrow>
          createAnnotation be nasaItem a w = (Inl e, w\<lparr>store := s\<rparr>))
       \<and> (getOrCreateImage be nasaItem (store w) = (Inr img, s) \<and> queue_error be = Some e \<longrightarrow>
          createAnnotation be nasaItem a w = (Inl e, w\<lparr>store := s\<rparr>))
       \<and> (getOrCreateImage be nasaItem (store w) = (Inr img, s) \<and> queue_error be = None
            \<and> new_uuid be \<in> item_id ` set (sync_queue w) \<longrightarrow>
          createAnnotation be nasaItem a w
            = (Inl ''duplicate key value violates unique constraint'', w\<lparr>store := s\<rparr>))"
  using assms
  by (auto simp: createAnnotation_def queueOfflineOperation_def queue_insert_def new_row_def
      rls_def Let_def)

theorem offline_write_is_queued_when_requests_succeed_witness:
  "auth_user (table_backend (Some ''alice'') 50 ''q9'' False) = Some ''alice''
   \<and> \<not> isConnected (table_backend (Some ''alice'') 50 ''q9'' False)
   \<and> getOrCreateImage (table_backend (Some ''alice'') 50 ''q9'' False)
        \<lparr>nasa_data = [[(''nasa_id'', ''PIA1'')]], links = []\<rparr>
        (store (device [] [(''images'', [(''id'', ''i1''), (''nasa_id'', ''PIA1'')])] False))
      = (Inr ''i1'', [(''images'', [(''id'', ''i1''), (''nasa_id'', ''PIA1'')])])
   \<and> queue_error (table_backend (Some ''alice'') 50 ''q9'' False) = None
   \<and> new_uuid (table_backend (Some ''alice'') 50 ''q9'' False)
        \<notin> item_id ` set (sync_queue (device [] [(''images'', [(''id'', ''i1''), (''nasa_id'', ''PIA1'')])] False))
   \<and> createAnnotation (table_backend (Some ''alice'') 50 ''q9'' False)
        \<lparr>nasa_data = [[(''nasa_id'', ''PIA1'')]], links = []\<rparr>
        \<lparr>bbox = None, label = Some ''crater'', annotation_type = Rectangle, text_field = None,
          properties = None, color = None\<rparr>
        (device [] [(''images'', [(''id'', ''i1''), (''nasa_id'', ''PIA1'')])] False)
      = (Inr (Optimistic 50
           [(''image_id'', ''i1''), (''user_id'', ''alice''), (''label'', ''crater''),
            (''annotation_type'', ''rectangle''), (''properties'', ''{}''),
            (''color'', ''#FFFFFF''), (''source'', ''user'')]),
         device
           [queued ''q9'' ''alice'' Insert ''annotations''
              [(''image_id'', ''i1''), (''user_id'', ''alice''), (''label'', ''crater''),
               (''annotation_type'', ''rectangle''), (''properties'', ''{}''),
               (''color'', ''#FFFFFF''), (''source'', ''user'')] Pending 50]
           [(''images'', [(''id'', ''i1''), (''nasa_id'', ''PIA1'')])] False)
   \<and> getOrCreateImage (unreachable_backend (Some ''alice'') 50)
        \<lparr>nasa_data = [[(''nasa_id'', ''PIA1'')]], links = []\<rparr> (store (device [] [] False))
      = (Inl ''Network request failed'', [])"
proof -
  let ?be = "table_backend (Some ''alice'') 50 ''q9'' False"
  let ?n = "\<lparr>nasa_data = [[(''nasa_id'', ''PIA1'')]], links = []\<rparr>"
  let ?a = "\<lparr>bbox = None, label = Some ''crater'', annotation_type = Rectangle, text_field = None,
          properties = None, color = None\<rparr>"
  let ?w = "device [] [(''images'', [(''id'', ''i1''), (''nasa_id'', ''PIA1'')])] False"
  have a: "auth_user ?be = Some ''alice''" by (simp add: table_backend_def)
  have b: "\<not> isConnected ?be" by (simp add: table_backend_def)
  have c: "auth_user (unreachable_backend (Some ''alice'') 50) = Some ''alice''"
    by (simp add: unreachable_backend_def)
  have d: "\<not> isConnected (unreachable_backend (Some ''alice'') 50)"
    by (simp add: unreachable_backend_def)
  from offline_write_is_queued_when_requests_succeed
         [OF a b, of ?n ?w "''i1''" "store ?w" ?a]
       offline_write_is_queued_when_requests_succeed
         [OF c d, of ?n "device [] [] False" _ "[]" _ "''Network request failed''"]
       a b
  show ?thesis
    by (simp add: table_backend_def unreachable_backend_def device_def queued_def
        getOrCreateImage_def table_images_select_def payload_id_def insertData_def new_row_def)
qed

text \<open>
  C2, on the code. The queued insert of a row whose id is taken fails at the backend: the
  response of the replay holds a duplicate-key error. The call does not throw, the loop does
  not look at the response, and the item is marked synced and counted as processed; its
  attempts and its error message stay as they were.
\<close>

theorem replay_error_in_response_is_marked_synced:
  "replay (table_backend (Some ''alice'') 50 ''q9'' True)
      (queued ''q1'' ''alice'' Insert ''annotations'' [(''id'', ''a1''), (''label'', ''crater'')] Pending 10)
      [(''annotations'', [(''id'', ''a1'')])]
     = Responded (Some ''duplicate key value violates unique constraint'')
         [(''annotations'', [(''id'', ''a1'')])]
   \<and> processSyncQueue (table_backend (Some ''alice'') 50 ''q9'' True)
        (device
          [queued ''q1'' ''alice'' Insert ''annotations'' [(''id'', ''a1''), (''label'', ''crater'')] Pending 10]
          [(''annotations'', [(''id'', ''a1'')])] True)
      = (Inr (1, 0),
         device
          [(queued ''q1'' ''alice'' Insert ''annotations'' [(''id'', ''a1''), (''label'', ''crater'')] Pending 10)
             \<lparr>status := Synced, synced_at := Some 50\<rparr>]
          [(''annotations'', [(''id'', ''a1'')])] True)"
  by (simp add: run_simps)

text \<open>
  C4, on the code. The queued update of a row that the table \<open>annotations\<close> does not
  hold matches no row; the request is answered without an exception, and the drain marks the
  item synced and counts it as processed, with attempts 0 and no error message.
\<close>

theorem update_of_missing_row_is_marked_synced:
  "\<not> list_ex (matches ''annotations'' (Some ''a1'')) [(''annotations'', [(''id'', ''a2'')])]
   \<and> processSyncQueue (table_backend (Some ''alice'') 50 ''q9'' True)
        (device
          [queued ''q1'' ''alice'' Update ''annotations'' [(''id'', ''a1''), (''label'', ''crater'')] Pending 10]
          [(''annotations'', [(''id'', ''a2'')])] True)
      = (Inr (1, 0),
         device
          [(queued ''q1'' ''alice'' Update ''annotations'' [(''id'', ''a1''), (''label'', ''crater'')] Pending 10)
             \<lparr>status := Synced, synced_at := Some 50\<rparr>]
          [(''annotations'', [(''id'', ''a2'')])] True)"
  by (simp add: run_simps)

text \<open>
  C3, on the code. \<open>retryFailedItem\<close> does not look at the status of the row: called
  with the id of a synced item it makes the item pending again (first run, with
  \<open>SyncService.isOnline\<close> false), and when the device is online the drain it triggers
  replays the insert a second time (second run).
\<close>

theorem retry_moves_synced_item_back_to_pending:
  "retryFailedItem (table_backend (Some ''alice'') 50 ''q9'' True) ''q1''
      (device
        [(queued ''q1'' ''alice'' Insert ''annotations'' [(''label'', ''crater'')] Synced 10)
           \<lparr>synced_at := Some 20\<rparr>]
        [(''annotations'', [(''label'', ''crater'')])] False)
     = (Inr (),
        device
         [(queued ''q1'' ''alice'' Insert ''annotations'' [(''label'', ''crater'')] Pending 10)
            \<lparr>synced_at := Some 20\<rparr>]
         [(''annotations'', [(''label'', ''crater'')])] False)
   \<and> retryFailedItem (table_backend (Some ''alice'') 50 ''q9'' True) ''q1''
      (device
        [(queued ''q1'' ''alice'' Insert ''annotations'' [(''label'', ''crater'')] Synced 10)
           \<lparr>synced_at := Some 20\<rparr>]
        [(''annotations'', [(''label'', ''crater'')])] True)
     = (Inr (),
        (device
          [(queued ''q1'' ''alice'' Insert ''annotations'' [(''label'', ''crater'')] Synced 10)
             \<lparr>synced_at := Some 50\<rparr>]
          [(''annotations'', [(''label'', ''crater'')]), (''annotations'', [(''label'', ''crater'')])]
          True)
        \<lparr>last_sync_time := Some 50\<rparr>)"
  by (simp add: run_simps retryFailedItem_def syncNow_def reset_item_def)

end
